theory Spec2Isabelle
  imports Complex_Main
begin

section \<open>Strings\<close>

text \<open>
  A JavaScript string is a sequence of UTF-16 code units; a code unit is modelled by its
  number.  \<open>str\<close> turns a literal into such a sequence.
\<close>

type_synonym jsstring = "nat list"

definition str :: "string \<Rightarrow> jsstring" where
  "str s = map of_char s"

definition is_digit :: "nat \<Rightarrow> bool" where
  "is_digit c = (48 \<le> c \<and> c \<le> 57)"

definition is_upper :: "nat \<Rightarrow> bool" where
  "is_upper c = (65 \<le> c \<and> c \<le> 90)"

definition is_lower :: "nat \<Rightarrow> bool" where
  "is_lower c = (97 \<le> c \<and> c \<le> 122)"

definition is_letter :: "nat \<Rightarrow> bool" where
  "is_letter c = (is_upper c \<or> is_lower c)"

text \<open>The class \<open>\w\<close>: letters, digits and the underscore.\<close>

definition is_word :: "nat \<Rightarrow> bool" where
  "is_word c = (is_letter c \<or> is_digit c \<or> c = 95)"

text \<open>
  The class \<open>\s\<close>, which is also what \<open>trim\<close> strips: the WhiteSpace and
  LineTerminator code points of ECMAScript.
\<close>

definition is_space :: "nat \<Rightarrow> bool" where
  "is_space c = ((9 \<le> c \<and> c \<le> 13) \<or> c = 32 \<or> c = 160 \<or> c = 5760
      \<or> (8192 \<le> c \<and> c \<le> 8202) \<or> c = 8232 \<or> c = 8233 \<or> c = 8239 \<or> c = 8287
      \<or> c = 12288 \<or> c = 65279)"

definition oneof :: "jsstring \<Rightarrow> nat \<Rightarrow> bool" where
  "oneof cs c = (c \<in> set cs)"

definition to_upper :: "nat \<Rightarrow> nat" where
  "to_upper c = (if is_lower c then c - 32 else c)"

definition to_lower :: "nat \<Rightarrow> nat" where
  "to_lower c = (if is_upper c then c + 32 else c)"

text \<open>
  A character class under the flag \<open>i\<close> (without the flag \<open>u\<close>): a code unit belongs to it
  when some member of the class has the same canonical (upper case) form.  Only the ASCII
  letters have a canonical form that another code unit of these classes shares.
\<close>

definition icase :: "(nat \<Rightarrow> bool) \<Rightarrow> nat \<Rightarrow> bool" where
  "icase P c = (P c \<or> P (to_upper c) \<or> P (to_lower c))"

definition trim :: "jsstring \<Rightarrow> jsstring" where
  "trim s = rev (dropWhile is_space (rev (dropWhile is_space s)))"

text \<open>\<open>String(n)\<close> for an integer, and \<open>padStart(2, '0')\<close>.\<close>

fun digits :: "nat \<Rightarrow> jsstring" where
  "digits n = (if n < 10 then [48 + n] else digits (n div 10) @ [48 + n mod 10])"

declare digits.simps [simp del]

definition String_of :: "int \<Rightarrow> jsstring" where
  "String_of i = (if i < 0 then 45 # digits (nat (- i)) else digits (nat i))"

definition padStart2 :: "jsstring \<Rightarrow> jsstring" where
  "padStart2 s = replicate (2 - length s) 48 @ s"

section \<open>Regular expressions\<close>

text \<open>
  Every pattern of the program is a sequence of character classes, each under a greedy
  quantifier \<open>{lo,hi}\<close> (\<open>hi\<close> absent for no upper bound), some of them capturing.
\<close>

datatype item =
    Rep "nat \<Rightarrow> bool" nat "nat option"
  | Grp "nat \<Rightarrow> bool" nat "nat option"

definition one :: "(nat \<Rightarrow> bool) \<Rightarrow> item" where
  "one P = Rep P 1 (Some 1)"

definition star :: "(nat \<Rightarrow> bool) \<Rightarrow> item" where
  "star P = Rep P 0 None"

definition opt :: "(nat \<Rightarrow> bool) \<Rightarrow> item" where
  "opt P = Rep P 0 (Some 1)"

definition lit :: "string \<Rightarrow> item list" where
  "lit s = map (\<lambda>c. one (\<lambda>x. x = of_char c)) s"

fun icase_item :: "item \<Rightarrow> item" where
  "icase_item (Rep P lo hi) = Rep (icase P) lo hi"
| "icase_item (Grp P lo hi) = Grp (icase P) lo hi"

definition ignoreCase :: "item list \<Rightarrow> item list" where
  "ignoreCase r = map icase_item r"

text \<open>The most repetitions a greedy quantifier can take at the start of \<open>s\<close>.\<close>

definition longest :: "(nat \<Rightarrow> bool) \<Rightarrow> nat option \<Rightarrow> jsstring \<Rightarrow> nat" where
  "longest P hi s =
     (case hi of None \<Rightarrow> length (takeWhile P s)
      | Some h \<Rightarrow> min h (length (takeWhile P s)))"

text \<open>
  Backtracking: the continuation \<open>f\<close> is tried with \<open>n\<close> repetitions, then with one fewer,
  down to \<open>lo\<close>; the first success is the result.
\<close>

fun backoff :: "(nat \<Rightarrow> 'a option) \<Rightarrow> nat \<Rightarrow> nat \<Rightarrow> 'a option" where
  "backoff f lo 0 = (if lo = 0 then f 0 else None)"
| "backoff f lo (Suc n) =
     (if Suc n < lo then None
      else case f (Suc n) of Some r \<Rightarrow> Some r | None \<Rightarrow> backoff f lo n)"

text \<open>A match of the pattern at the start of \<open>s\<close>: the captured groups, in order.\<close>

fun match_here :: "item list \<Rightarrow> jsstring \<Rightarrow> jsstring list option" where
  "match_here [] s = Some []"
| "match_here (Rep P lo hi # r) s =
     backoff (\<lambda>k. match_here r (drop k s)) lo (longest P hi s)"
| "match_here (Grp P lo hi # r) s =
     backoff (\<lambda>k. map_option ((#) (take k s)) (match_here r (drop k s))) lo (longest P hi s)"

text \<open>
  \<open>s.match(re)\<close> for a pattern without the flag \<open>g\<close>: the match at the leftmost start
  position that has one, \<open>None\<close> for \<open>null\<close>.
\<close>

fun match_re :: "item list \<Rightarrow> jsstring \<Rightarrow> jsstring list option" where
  "match_re r [] = match_here r []"
| "match_re r (c # cs) =
     (case match_here r (c # cs) of Some g \<Rightarrow> Some g | None \<Rightarrow> match_re r cs)"

section \<open>parseDate\<close>

definition isoPattern :: "item list" where
  "isoPattern =
     [Grp is_digit 4 (Some 4), one (oneof (str ''-/.'')),
      Grp is_digit 2 (Some 2), one (oneof (str ''-/.'')),
      Grp is_digit 2 (Some 2)]"

definition friendlyPattern :: "item list" where
  "friendlyPattern =
     [Grp is_digit 1 (Some 2), Rep is_space 1 None,
      Grp is_letter 3 None, Rep is_space 1 None,
      Grp is_digit 4 (Some 4)]"

text \<open>
  \<open>new Date(text)\<close> on a text that is not in the ISO format is left to the engine, so it
  is a parameter: \<open>None\<close> for an invalid date, otherwise \<open>getFullYear()\<close>, \<open>getMonth()\<close>
  and \<open>getDate()\<close>.
\<close>

type_synonym date_ctor = "jsstring \<Rightarrow> (int \<times> nat \<times> nat) option"

definition parseDate :: "date_ctor \<Rightarrow> jsstring \<Rightarrow> jsstring option" where
  "parseDate Date_of v =
     (if v = [] then None
      else case match_re isoPattern v of
        Some [y, m, d] \<Rightarrow> Some (y @ str ''-'' @ m @ str ''-'' @ d)
      | _ \<Rightarrow>
        (case match_re friendlyPattern v of
           Some [d, mName, y] \<Rightarrow>
             (case Date_of (mName @ str '' '' @ d @ str '', '' @ y) of
                Some (fullYear, month0, day) \<Rightarrow>
                  Some (String_of fullYear @ str ''-''
                        @ padStart2 (String_of (int month0 + 1)) @ str ''-''
                        @ padStart2 (String_of (int day)))
              | None \<Rightarrow> None)
         | _ \<Rightarrow> None))"

section \<open>localExtractor\<close>

definition name_re :: "item list" where
  "name_re = ignoreCase
     (lit ''Name'' @ [star is_space, one (oneof (str '':-'')), star is_space,
      Grp (\<lambda>c. is_upper c \<or> is_lower c \<or> oneof (str '' ,.'') c \<or> c = 39 \<or> c = 45) 1 None])"

definition passport_re :: "item list" where
  "passport_re = ignoreCase
     (lit ''Passport'' @ [star is_space] @ lit ''No'' @
      [opt (\<lambda>c. c = 46), star is_space, opt (oneof (str '':-'')), star is_space,
       Grp (\<lambda>c. is_upper c \<or> is_digit c) 1 None])"

definition docid_re :: "item list" where
  "docid_re = ignoreCase
     (lit ''Document'' @ [star is_space] @ lit ''ID'' @
      [star is_space, one (oneof (str '':-'')), star is_space,
       Grp (\<lambda>c. is_upper c \<or> is_digit c) 1 None])"

definition issue_re :: "item list" where
  "issue_re = ignoreCase
     (lit ''Issue'' @ [star is_space] @ lit ''Date'' @
      [star is_space, one (oneof (str '':-'')), star is_space,
       Grp (\<lambda>c. is_word c \<or> is_space c \<or> c = 46 \<or> c = 45) 1 None])"

definition issued_re :: "item list" where
  "issued_re = ignoreCase
     (lit ''Issued'' @ [star is_space] @ lit ''on'' @
      [star is_space,
       Grp (\<lambda>c. is_word c \<or> is_space c \<or> c = 46 \<or> c = 45) 1 None])"

text \<open>\<open>rawText.match(re)?.[1]?.trim()\<close>, with \<open>None\<close> for \<open>undefined\<close>.\<close>

definition capture1 :: "item list \<Rightarrow> jsstring \<Rightarrow> jsstring option" where
  "capture1 re s = (case match_re re s of Some (g # gs) \<Rightarrow> Some (trim g) | _ \<Rightarrow> None)"

text \<open>Truthiness of a string or \<open>undefined\<close>, and \<open>v || d\<close> with a string default.\<close>

definition truthy :: "jsstring option \<Rightarrow> bool" where
  "truthy v = (case v of None \<Rightarrow> False | Some s \<Rightarrow> s \<noteq> [])"

definition or_str :: "jsstring option \<Rightarrow> jsstring \<Rightarrow> jsstring" where
  "or_str v d = (case v of None \<Rightarrow> d | Some s \<Rightarrow> if s \<noteq> [] then s else d)"

record extraction =
  applicantName :: jsstring
  documentId :: jsstring
  issueDate :: jsstring
  source :: jsstring

text \<open>The patterns of \<open>localExtractor\<close>, to record which of them a run evaluates.\<close>

datatype label = NameLabel | PassportNo | DocumentID | IssueDate | IssuedOn

text \<open>
  \<open>localExtractor\<close> together with the patterns it evaluated, in order: the right operand
  of \<open>||\<close> is evaluated only when the left one is falsy.
\<close>

definition localExtractor_run :: "date_ctor \<Rightarrow> jsstring \<Rightarrow> extraction \<times> label list" where
  "localExtractor_run Date_of rawText =
     (let name = capture1 name_re rawText;
          p1 = capture1 passport_re rawText;
          (passport, log1) =
            (if truthy p1 then (p1, [NameLabel, PassportNo])
             else (capture1 docid_re rawText, [NameLabel, PassportNo, DocumentID]));
          d1 = parseDate Date_of (or_str (capture1 issue_re rawText) []);
          (date, log2) =
            (if truthy d1 then (d1, log1 @ [IssueDate])
             else (parseDate Date_of (or_str (capture1 issued_re rawText) []),
                   log1 @ [IssueDate, IssuedOn]))
      in (\<lparr>applicantName = or_str name (str ''UNKNOWN''),
           documentId = or_str passport (str ''UNKNOWN''),
           issueDate = or_str date (str ''UNKNOWN''),
           source = str ''local-extractor''\<rparr>, log2))"

definition localExtractor :: "date_ctor \<Rightarrow> jsstring \<Rightarrow> extraction" where
  "localExtractor Date_of rawText = fst (localExtractor_run Date_of rawText)"

definition consulted :: "date_ctor \<Rightarrow> jsstring \<Rightarrow> label list" where
  "consulted Date_of rawText = snd (localExtractor_run Date_of rawText)"

section \<open>JSON values\<close>

text \<open>
  What \<open>JSON.parse\<close> and \<open>response.json()\<close> produce.  A number is a rational here; only
  whether it is zero matters to the program.
\<close>

datatype json =
    JNull
  | JBool bool
  | JNum rat
  | JStr jsstring
  | JArr "json list"
  | JObj "(jsstring \<times> json) list"

fun truthy_json :: "json \<Rightarrow> bool" where
  "truthy_json JNull = False"
| "truthy_json (JBool b) = b"
| "truthy_json (JNum n) = (n \<noteq> 0)"
| "truthy_json (JStr s) = (s \<noteq> [])"
| "truthy_json (JArr xs) = True"
| "truthy_json (JObj kvs) = True"

text \<open>
  Optional chaining, \<open>None\<close> for \<open>undefined\<close>.  \<open>get_prop k v\<close> is \<open>v?.k\<close> for the four names the
  program reads (\<open>candidates\<close>, \<open>content\<close>, \<open>parts\<close>, \<open>text\<close>), none of which an array, a
  string, a number or a boolean has; \<open>idx0 v\<close> is \<open>v?.[0]\<close>.
\<close>

fun get_prop :: "jsstring \<Rightarrow> json option \<Rightarrow> json option" where
  "get_prop k (Some (JObj kvs)) = map_of kvs k"
| "get_prop k v = None"

fun idx0 :: "json option \<Rightarrow> json option" where
  "idx0 (Some (JArr (x # xs))) = Some x"
| "idx0 (Some (JStr (c # cs))) = Some (JStr [c])"
| "idx0 (Some (JObj kvs)) = map_of kvs (str ''0'')"
| "idx0 v = None"

text \<open>
  Objects under construction are maps from property names.  \<open>spread v\<close> is the set of
  properties that \<open>{...v}\<close> copies: those of an object, the indices of an array or of a
  string, nothing for a number or a boolean.
\<close>

type_synonym obj = "jsstring \<rightharpoonup> json"

fun spread :: "json \<Rightarrow> obj" where
  "spread (JObj kvs) = map_of kvs"
| "spread (JArr xs) = map_of (zip (map digits [0..<length xs]) xs)"
| "spread (JStr s) = map_of (zip (map digits [0..<length s]) (map (\<lambda>c. JStr [c]) s))"
| "spread v = Map.empty"

section \<open>callGemini\<close>

text \<open>
  The transport is outside the program.  A \<open>fetch\<close> either rejects or resolves to a
  response with its \<open>ok\<close> flag, its status and what \<open>response.json()\<close> gives (\<open>None\<close> when it
  rejects).  The run records what it does to the outside: each request issued and each
  suspension, with its length in milliseconds.
\<close>

datatype response =
    Rejected nat
  | Response bool nat "json option"

datatype event =
    Fetch jsstring json
  | Delay nat

datatype error =
    FetchRejected nat
  | RequestFailed nat
  | BodyRejected
  | EmptyResponse
  | SyntaxError json

text \<open>
  The transport answers a request knowing everything that happened before it;
  \<open>JSON.parse\<close> is a parameter, \<open>None\<close> when it throws.
\<close>

type_synonym transport = "event list \<Rightarrow> jsstring \<Rightarrow> json \<Rightarrow> response"

type_synonym json_parse = "json \<Rightarrow> json option"

text \<open>\<open>payload?.candidates?.[0]?.content?.parts?.[0]?.text\<close>\<close>

definition payload_text :: "json \<Rightarrow> json option" where
  "payload_text payload =
     get_prop (str ''text'')
       (idx0 (get_prop (str ''parts'')
         (get_prop (str ''content'')
           (idx0 (get_prop (str ''candidates'') (Some payload))))))"

text \<open>
  The body of the \<open>try\<close> block, once \<open>fetch\<close> has settled: \<open>Inl\<close> is the error thrown
  there, \<open>Inr\<close> the value returned.
\<close>

definition read_response :: "json_parse \<Rightarrow> response \<Rightarrow> error + json" where
  "read_response parse r =
     (case r of
        Rejected e \<Rightarrow> Inl (FetchRejected e)
      | Response ok status body \<Rightarrow>
          if \<not> ok then Inl (RequestFailed status)
          else (case body of
                  None \<Rightarrow> Inl BodyRejected
                | Some payload \<Rightarrow>
                    (case payload_text payload of
                       None \<Rightarrow> Inl EmptyResponse
                     | Some text \<Rightarrow>
                         if \<not> truthy_json text then Inl EmptyResponse
                         else (case parse text of
                                 None \<Rightarrow> Inl (SyntaxError text)
                               | Some v \<Rightarrow> Inr v))))"

definition maxAttempts :: nat where
  "maxAttempts = 3"

definition request_url :: "jsstring \<Rightarrow> jsstring" where
  "request_url apiKey =
     str ''https://generativelanguage.googleapis.com/v1beta/models/gemini-2.5-flash-preview-09-2025:generateContent?key=''
     @ apiKey"

definition request_body :: "jsstring \<Rightarrow> json" where
  "request_body prompt =
     JObj [(str ''contents'',
              JArr [JObj [(str ''parts'', JArr [JObj [(str ''text'', JStr prompt)]])]]),
           (str ''generationConfig'',
              JObj [(str ''responseMimeType'', JStr (str ''application/json''))])]"

text \<open>
  The \<open>for\<close> loop, from attempt \<open>attempt\<close> on, with the events so far in \<open>h\<close>.  The request
  body is kept as the value that \<open>JSON.stringify\<close> is applied to.
\<close>

function attempts ::
  "transport \<Rightarrow> json_parse \<Rightarrow> jsstring \<Rightarrow> json \<Rightarrow> nat \<Rightarrow> nat \<Rightarrow> event list
     \<Rightarrow> (error + json) \<times> event list" where
  "attempts net parse url body attempt delayMs h =
     (if attempt \<le> maxAttempts then
        (case read_response parse (net h url body) of
           Inr v \<Rightarrow> (Inr v, h @ [Fetch url body])
         | Inl e \<Rightarrow>
             if attempt = maxAttempts then (Inl e, h @ [Fetch url body])
             else attempts net parse url body (attempt + 1) (delayMs * 2)
                    (h @ [Fetch url body, Delay delayMs]))
      else (Inr JNull, h))"
  by pat_completeness auto
termination
  by (relation "measure (\<lambda>(net, parse, url, body, attempt, delayMs, h). Suc maxAttempts - attempt)")
     auto

declare attempts.simps [simp del]

text \<open>
  The credential is a string or absent; \<open>!apiKey\<close> holds for an absent and for an empty
  one.  The result is what the promise settles to: \<open>Inl\<close> when it rejects.
\<close>

definition callGemini ::
  "transport \<Rightarrow> json_parse \<Rightarrow> jsstring \<Rightarrow> jsstring option \<Rightarrow> (error + json) \<times> event list" where
  "callGemini net parse prompt apiKey =
     (if \<not> truthy apiKey then (Inr JNull, [])
      else attempts net parse (request_url (the apiKey)) (request_body prompt) 1 500 [])"

section \<open>handleProcess\<close>

definition schemaDescription_json :: jsstring where
  "schemaDescription_json = str
     (''[{\"field\":\"applicantName\",\"type\":\"STRING\",\"description\":\"The full name of the applicant.\"},''
      @ ''{\"field\":\"documentId\",\"type\":\"STRING\",\"description\":\"The unique document identification number.\"},''
      @ ''{\"field\":\"issueDate\",\"type\":\"STRING\",\"format\":\"YYYY-MM-DD\",\"description\":\"The date the document was issued.\"}]'')"

definition buildPrompt :: "jsstring \<Rightarrow> jsstring" where
  "buildPrompt rawText =
     str ''Act as an Intelligent Document Processing (IDP) engine. Only return a JSON object matching this schema: ''
     @ schemaDescription_json
     @ str ''. Use ISO date format (YYYY-MM-DD) for issueDate. Raw text to extract from:\<newline>\<newline>''
     @ rawText"

datatype tone = info | success | warning | danger

record status =
  tone :: tone
  message :: jsstring

record app =
  rawText :: jsstring
  artifact :: "obj option"
  status :: status
  processing :: bool

definition obj_of :: "extraction \<Rightarrow> obj" where
  "obj_of e =
     [str ''applicantName'' \<mapsto> JStr (applicantName e),
      str ''documentId'' \<mapsto> JStr (documentId e),
      str ''issueDate'' \<mapsto> JStr (issueDate e),
      str ''source'' \<mapsto> JStr (source e)]"

text \<open>
  The \<open>try\<close> statement of \<open>handleProcess\<close>: \<open>structured\<close>, \<open>usedGemini\<close> and
  \<open>fallbackReason\<close> as it leaves them, and the events of the remote call.
\<close>

definition extract_structured ::
  "date_ctor \<Rightarrow> transport \<Rightarrow> json_parse \<Rightarrow> jsstring \<Rightarrow> jsstring
     \<Rightarrow> (obj \<times> bool \<times> jsstring) \<times> event list" where
  "extract_structured Date_of net parse apiKey text =
     (case callGemini net parse (buildPrompt text) (Some apiKey) of
        (Inr llmResult, evs) \<Rightarrow>
          if truthy_json llmResult
          then (((spread llmResult)(str ''source'' \<mapsto> JStr (str ''gemini-2.5-flash-preview-09-2025'')),
                 True, []), evs)
          else ((obj_of (localExtractor Date_of text), False,
                 str ''Gemini API key not provided; used offline extractor.''), evs)
      | (Inl e, evs) \<Rightarrow>
          ((obj_of (localExtractor Date_of text), False,
            str ''Gemini API unavailable; used local extractor with the latest document text.''),
           evs))"

text \<open>
  \<open>handleProcess\<close> on the state of the component: the state it leaves and the events of
  the run.  \<open>env_key\<close> is \<open>import.meta.env.VITE_GEMINI_API_KEY\<close> and \<open>now\<close> is what
  \<open>new Date().toISOString()\<close> gives during the run.  The state while the run is under way
  (\<open>processing\<close> set, the status that says so) and the line written to the console when the
  remote call fails are not part of the result.
\<close>

definition handleProcess ::
  "date_ctor \<Rightarrow> transport \<Rightarrow> json_parse \<Rightarrow> jsstring option \<Rightarrow> jsstring \<Rightarrow> app
     \<Rightarrow> app \<times> event list" where
  "handleProcess Date_of net parse env_key now st =
     (let apiKey = or_str env_key [];
          ((structured, usedGemini, fallbackReason), evs) =
             extract_structured Date_of net parse apiKey (rawText st);
          result = structured(str ''rawText'' \<mapsto> JStr (rawText st),
                              str ''processedAt'' \<mapsto> JStr now)
      in (st\<lparr>artifact := Some result,
              status :=
                (if usedGemini
                 then \<lparr>tone = success, message = str ''Extraction completed using the Gemini API.''\<rparr>
                 else if fallbackReason \<noteq> []
                 then \<lparr>tone = warning, message = fallbackReason\<rparr>
                 else \<lparr>tone = success,
                       message = str ''Extraction completed with the built-in parser (offline fallback).''\<rparr>),
              processing := False\<rparr>, evs))"

section \<open>Sample inputs\<close>

text \<open>An engine whose \<open>Date\<close> parses nothing, and a transport with one fixed answer.\<close>

definition no_dates :: date_ctor where
  "no_dates s = None"

definition always :: "response \<Rightarrow> transport" where
  "always r h u b = r"

text \<open>A transport that refuses every request, with a status that grows with the history.\<close>

definition status_of_history :: transport where
  "status_of_history h u b = Response False (500 + length h) None"

text \<open>The payload of a successful response whose generated text is \<open>t\<close>.\<close>

definition candidate_payload :: "jsstring \<Rightarrow> json" where
  "candidate_payload t =
     JObj [(str ''candidates'',
       JArr [JObj [(str ''content'',
         JObj [(str ''parts'', JArr [JObj [(str ''text'', JStr t)]])])]])]"

text \<open>A \<open>JSON.parse\<close> known on the texts of a table only.\<close>

definition parse_table :: "(json \<times> json) list \<Rightarrow> json_parse" where
  "parse_table tbl reply = map_of tbl reply"

definition blank :: app where
  "blank = \<lparr>rawText = str ''Name: Jane Doe'', artifact = None,
     status = \<lparr>tone = info, message = str ''Ready''\<rparr>, processing = False\<rparr>"

text \<open>A service that answers with a well-formed JSON object outside the schema.\<close>

definition foo_reply :: jsstring where
  "foo_reply = str ''{\"foo\":\"bar\"}''"

definition foo_net :: transport where
  "foo_net = always (Response True 200 (Some (candidate_payload foo_reply)))"

definition foo_parse :: json_parse where
  "foo_parse = parse_table [(JStr foo_reply, JObj [(str ''foo'', JStr (str ''bar''))])]"

text \<open>Document texts for the local extractor.\<close>

definition two_ids :: jsstring where
  "two_ids = str ''Passport No: X1 Document ID: Y2 Issue Date: 2021-05-17 Issued on 2020-01-01''"

definition blank_captures :: jsstring where
  "blank_captures = str ''Name: ?Issue Date: ?Issued on ?''"

definition blank_issue_date :: jsstring where
  "blank_issue_date = str ''Issue Date: ?Issued on 2020.01.02''"

definition second_choice :: jsstring where
  "second_choice = str ''Name: Al?Document ID: Y2 Issued on 2020.01.02''"

section \<open>What a match captures\<close>

text \<open>
  \<open>grp_ok r gs\<close>: the list \<open>gs\<close> has one string for each capturing item of \<open>r\<close>, made of
  code units of the item's class and with a length within the item's bounds.
\<close>

fun grp_ok :: "item list \<Rightarrow> jsstring list \<Rightarrow> bool" where
  "grp_ok [] gs = (gs = [])"
| "grp_ok (Rep P lo hi # r) gs = grp_ok r gs"
| "grp_ok (Grp P lo hi # r) gs =
     (case gs of [] \<Rightarrow> False
      | g # gs' \<Rightarrow> list_all P g \<and> lo \<le> length g
          \<and> (case hi of None \<Rightarrow> True | Some h \<Rightarrow> length g \<le> h) \<and> grp_ok r gs')"

lemma backoff_SomeD:
  "backoff f lo n = Some r \<Longrightarrow> \<exists>k. lo \<le> k \<and> k \<le> n \<and> f k = Some r"
proof (induction n)
  case 0
  then show ?case by (auto split: if_splits)
next
  case (Suc n)
  show ?case
  proof (cases "f (Suc n)")
    case None
    with Suc.prems have "backoff f lo n = Some r"
      by (simp split: if_splits)
    from Suc.IH [OF this] show ?thesis
      using le_Suc_eq by blast
  next
    case (Some a)
    with Suc.prems have "\<not> Suc n < lo" and "a = r"
      by (simp_all split: if_splits)
    with Some show ?thesis
      by (intro exI [of _ "Suc n"]) simp
  qed
qed

lemma take_longest:
  assumes "k \<le> longest P hi s"
  shows "list_all P (take k s) \<and> length (take k s) = k
    \<and> (case hi of None \<Rightarrow> True | Some h \<Rightarrow> k \<le> h)"
proof -
  have k: "k \<le> length (takeWhile P s)"
    using assms by (simp add: longest_def split: option.splits)
  have "take k s = take k (takeWhile P s)"
    using k by (metis append_eq_conv_conj takeWhile_dropWhile_id take_append take_all_iff
        diff_is_0_eq take_0 append_Nil2)
  moreover have "list_all P (takeWhile P s)"
    by (simp add: list_all_iff) (meson set_takeWhileD)
  ultimately have "list_all P (take k s)"
    by (metis list_all_iff in_set_takeD)
  moreover have "length (take k s) = k"
    using k length_takeWhile_le [of P s] by simp
  moreover have "case hi of None \<Rightarrow> True | Some h \<Rightarrow> k \<le> h"
    using assms by (simp add: longest_def split: option.splits)
  ultimately show ?thesis by blast
qed

lemma match_here_grp_ok: "match_here r s = Some gs \<Longrightarrow> grp_ok r gs"
proof (induction r arbitrary: s gs)
  case Nil
  then show ?case by simp
next
  case (Cons a r)
  show ?case
  proof (cases a)
    case (Rep P lo hi)
    with Cons.prems obtain k where "match_here r (drop k s) = Some gs"
      using backoff_SomeD [of "\<lambda>k. match_here r (drop k s)" lo "longest P hi s" gs] by auto
    with Cons.IH Rep show ?thesis by simp
  next
    case (Grp P lo hi)
    with Cons.prems obtain k where k: "lo \<le> k" "k \<le> longest P hi s"
      and m: "map_option ((#) (take k s)) (match_here r (drop k s)) = Some gs"
      using backoff_SomeD [of "\<lambda>k. map_option ((#) (take k s)) (match_here r (drop k s))"
          lo "longest P hi s" gs] by auto
    from m obtain gs' where gs: "gs = take k s # gs'" and r: "match_here r (drop k s) = Some gs'"
      by auto
    from take_longest [OF k(2)] k(1) Cons.IH [OF r] gs Grp show ?thesis
      by (auto split: option.splits)
  qed
qed

lemma match_re_grp_ok: "match_re r s = Some gs \<Longrightarrow> grp_ok r gs"
  by (induction s) (auto split: option.splits dest: match_here_grp_ok)

section \<open>The remote call\<close>

lemma str_nonempty: "str (c # cs) \<noteq> []"
  by (simp add: str_def)

lemma or_str_falsy: "\<not> truthy v \<Longrightarrow> or_str v d = d"
  by (auto simp: truthy_def or_str_def split: option.splits)

lemma attempts_retry:
  "attempt < maxAttempts \<Longrightarrow> read_response parse (net h u b) = Inl e \<Longrightarrow>
   attempts net parse u b attempt d h
     = attempts net parse u b (Suc attempt) (d * 2) (h @ [Fetch u b, Delay d])"
  by (subst attempts.simps) simp

lemma attempts_give_up:
  "attempt = maxAttempts \<Longrightarrow> read_response parse (net h u b) = Inl e \<Longrightarrow>
   attempts net parse u b attempt d h = (Inl e, h @ [Fetch u b])"
  by (subst attempts.simps) simp

lemma attempts_return:
  "attempt \<le> maxAttempts \<Longrightarrow> read_response parse (net h u b) = Inr v \<Longrightarrow>
   attempts net parse u b attempt d h = (Inr v, h @ [Fetch u b])"
  by (subst attempts.simps) simp

lemma attempts_all_fail:
  assumes "\<And>h. \<exists>e. read_response parse (net h u b) = Inl e"
  shows "\<exists>e. read_response parse (net [Fetch u b, Delay 500, Fetch u b, Delay 1000] u b) = Inl e
     \<and> attempts net parse u b 1 500 []
         = (Inl e, [Fetch u b, Delay 500, Fetch u b, Delay 1000, Fetch u b])"
proof -
  obtain e1 where e1: "read_response parse (net [] u b) = Inl e1"
    using assms by blast
  obtain e2 where e2: "read_response parse (net ([] @ [Fetch u b, Delay 500]) u b) = Inl e2"
    using assms by blast
  obtain e3 where e3:
    "read_response parse
       (net (([] @ [Fetch u b, Delay 500]) @ [Fetch u b, Delay (500 * 2)]) u b) = Inl e3"
    using assms by blast
  have m: "1 < maxAttempts" "Suc 1 < maxAttempts" "Suc (Suc 1) = maxAttempts"
    by (simp_all add: maxAttempts_def)
  have "attempts net parse u b 1 500 []
      = attempts net parse u b (Suc 1) (500 * 2) ([] @ [Fetch u b, Delay 500])"
    by (rule attempts_retry [where net = net and h = "[]", OF m(1) e1])
  also have "\<dots> = attempts net parse u b (Suc (Suc 1)) (500 * 2 * 2)
      (([] @ [Fetch u b, Delay 500]) @ [Fetch u b, Delay (500 * 2)])"
    by (rule attempts_retry [where net = net and h = "[] @ [Fetch u b, Delay 500]", OF m(2) e2])
  also have "\<dots> = (Inl e3,
      (([] @ [Fetch u b, Delay 500]) @ [Fetch u b, Delay (500 * 2)]) @ [Fetch u b])"
    by (rule attempts_give_up [where net = net
          and h = "([] @ [Fetch u b, Delay 500]) @ [Fetch u b, Delay (500 * 2)]", OF m(3) e3])
  finally have "attempts net parse u b 1 500 []
      = (Inl e3, [Fetch u b, Delay 500, Fetch u b, Delay 1000, Fetch u b])"
    by simp
  moreover have "read_response parse (net [Fetch u b, Delay 500, Fetch u b, Delay 1000] u b) = Inl e3"
    using e3 by simp
  ultimately show ?thesis by blast
qed

lemma read_response_ok:
  "payload_text payload = Some reply \<Longrightarrow> truthy_json reply \<Longrightarrow> parse reply = Some v \<Longrightarrow>
   read_response parse (Response True status_code (Some payload)) = Inr v"
  by (simp add: read_response_def)

lemma payload_text_candidate: "payload_text (candidate_payload t) = Some (JStr t)"
  by (simp add: payload_text_def candidate_payload_def str_def)

lemma callGemini_first_attempt:
  assumes "key \<noteq> []"
    and "read_response parse (net [] (request_url key) (request_body prompt)) = Inr v"
  shows "callGemini net parse prompt (Some key)
     = (Inr v, [Fetch (request_url key) (request_body prompt)])"
  using attempts_return [where attempt = 1 and net = net and h = "[]" and parse = parse
      and u = "request_url key" and b = "request_body prompt" and v = v and d = 500] assms
  by (simp add: callGemini_def truthy_def maxAttempts_def)

section \<open>The orchestration\<close>

lemma obj_of_source: "obj_of e (str ''source'') = Some (JStr (source e))"
  by (simp add: obj_of_def)

lemma dom_obj_of:
  "dom (obj_of e) = {str ''applicantName'', str ''documentId'', str ''issueDate'', str ''source''}"
  by (auto simp: obj_of_def)

lemma source_localExtractor: "source (localExtractor D t) = str ''local-extractor''"
  by (simp add: localExtractor_def localExtractor_run_def Let_def split: prod.splits)

lemma extract_structured_no_key:
  "extract_structured D net parse [] t
     = ((obj_of (localExtractor D t), False,
         str ''Gemini API key not provided; used offline extractor.''), [])"
  by (simp add: extract_structured_def callGemini_def truthy_def)

lemma extract_structured_remote:
  assumes "key \<noteq> []"
    and "read_response parse (net [] (request_url key) (request_body (buildPrompt t))) = Inr v"
    and "truthy_json v"
  shows "extract_structured D net parse key t
     = (((spread v)(str ''source'' \<mapsto> JStr (str ''gemini-2.5-flash-preview-09-2025'')), True, []),
        [Fetch (request_url key) (request_body (buildPrompt t))])"
  using callGemini_first_attempt [where key = key and parse = parse and net = net
        and prompt = "buildPrompt t" and v = v] assms
  by (simp add: extract_structured_def)

lemma handleProcess_no_key:
  "\<not> truthy env_key \<Longrightarrow>
   handleProcess D net parse env_key now st =
     (st\<lparr>artifact := Some ((obj_of (localExtractor D (rawText st)))
                (str ''rawText'' \<mapsto> JStr (rawText st), str ''processedAt'' \<mapsto> JStr now)),
         status := \<lparr>tone = warning,
                     message = str ''Gemini API key not provided; used offline extractor.''\<rparr>,
         processing := False\<rparr>, [])"
  by (simp add: handleProcess_def or_str_falsy extract_structured_no_key str_nonempty)

lemma foo_read:
  "read_response foo_parse (foo_net h u b) = Inr (JObj [(str ''foo'', JStr (str ''bar''))])"
  by (simp add: foo_net_def foo_parse_def always_def parse_table_def
        read_response_ok [OF payload_text_candidate] foo_reply_def str_def)

lemma foo_structured:
  "extract_structured D foo_net foo_parse (str ''k'') t
    = (((spread (JObj [(str ''foo'', JStr (str ''bar''))]))
          (str ''source'' \<mapsto> JStr (str ''gemini-2.5-flash-preview-09-2025'')), True, []),
       [Fetch (request_url (str ''k'')) (request_body (buildPrompt t))])"
  by (rule extract_structured_remote) (simp_all add: foo_read str_def)

section \<open>The local extractor\<close>

lemmas ev = str_def one_def star_def opt_def lit_def ignoreCase_def oneof_def longest_def
  is_digit_def is_upper_def is_lower_def is_letter_def is_word_def is_space_def icase_def
  to_upper_def to_lower_def trim_def

lemma iso_groups:
  "match_re isoPattern v = Some gs \<Longrightarrow>
   \<exists>y m d. gs = [y, m, d] \<and> length y = 4 \<and> length m = 2 \<and> length d = 2
     \<and> list_all is_digit y \<and> list_all is_digit m \<and> list_all is_digit d"
  by (drule match_re_grp_ok) (auto simp: isoPattern_def one_def split: list.splits)

lemma iso_empty: "match_re isoPattern [] = None"
  by (simp add: isoPattern_def longest_def)

lemma parseDate_iso:
  assumes "match_re isoPattern v = Some [y, m, d]"
  shows "parseDate D v = Some (y @ str ''-'' @ m @ str ''-'' @ d)"
proof -
  have "v \<noteq> []" using assms iso_empty by auto
  with assms show ?thesis by (simp add: parseDate_def)
qed

lemma parseDate_nonempty: "parseDate D v \<noteq> Some []"
  by (auto simp: parseDate_def str_def split: option.splits list.splits if_splits)

lemma dropWhile_none: "\<forall>c\<in>set xs. \<not> P c \<Longrightarrow> dropWhile P xs = xs"
  by (cases xs) auto

lemma trim_no_space: "\<forall>c\<in>set g. \<not> is_space c \<Longrightarrow> trim g = g"
  by (simp add: trim_def dropWhile_none)

lemma alnum_not_space: "icase (\<lambda>c. is_upper c \<or> is_digit c) c \<Longrightarrow> \<not> is_space c"
  by (auto simp: icase_def is_upper_def is_digit_def is_space_def to_upper_def to_lower_def
        is_lower_def split: if_splits)

lemma alnum_capture:
  assumes "list_all (icase (\<lambda>c. is_upper c \<or> is_digit c)) g" and "1 \<le> length g"
  shows "g \<noteq> [] \<and> trim g = g"
proof -
  have "\<forall>c\<in>set g. \<not> is_space c"
    using assms(1) alnum_not_space by (auto simp: list_all_iff)
  then have "trim g = g" by (rule trim_no_space)
  moreover have "g \<noteq> []" using assms(2) by auto
  ultimately show ?thesis by simp
qed

lemma passport_groups:
  "match_re passport_re s = Some gs \<Longrightarrow> \<exists>g. gs = [g] \<and> g \<noteq> [] \<and> trim g = g"
  by (drule match_re_grp_ok)
     (auto simp: passport_re_def ignoreCase_def lit_def one_def star_def opt_def
        split: list.splits dest: alnum_capture)

lemma docid_groups:
  "match_re docid_re s = Some gs \<Longrightarrow> \<exists>g. gs = [g] \<and> g \<noteq> [] \<and> trim g = g"
  by (drule match_re_grp_ok)
     (auto simp: docid_re_def ignoreCase_def lit_def one_def star_def opt_def
        split: list.splits dest: alnum_capture)

lemma passport_capture:
  "capture1 passport_re s = (case match_re passport_re s of None \<Rightarrow> None | Some gs \<Rightarrow> Some (hd gs))"
  by (auto simp: capture1_def split: option.splits list.splits dest: passport_groups)

lemma passport_truthy: "truthy (capture1 passport_re s) = (match_re passport_re s \<noteq> None)"
  by (auto simp: capture1_def truthy_def split: option.splits list.splits dest: passport_groups)

lemma truthy_parseDate: "truthy (parseDate D v) = (parseDate D v \<noteq> None)"
  using parseDate_nonempty [of D v] by (auto simp: truthy_def split: option.splits)

lemma or_str_nonempty: "d \<noteq> [] \<Longrightarrow> or_str v d \<noteq> []"
  by (auto simp: or_str_def split: option.splits)

lemma or_str_truthy: "truthy v \<Longrightarrow> or_str v d = the v"
  by (auto simp: or_str_def truthy_def split: option.splits)

lemma localExtractor_fields:
  "applicantName (localExtractor D s) = or_str (capture1 name_re s) (str ''UNKNOWN'')"
  "documentId (localExtractor D s)
     = or_str (if truthy (capture1 passport_re s) then capture1 passport_re s
               else capture1 docid_re s) (str ''UNKNOWN'')"
  "issueDate (localExtractor D s)
     = or_str (if truthy (parseDate D (or_str (capture1 issue_re s) []))
               then parseDate D (or_str (capture1 issue_re s) [])
               else parseDate D (or_str (capture1 issued_re s) [])) (str ''UNKNOWN'')"
  "source (localExtractor D s) = str ''local-extractor''"
  by (simp_all add: localExtractor_def localExtractor_run_def Let_def split: prod.splits)

lemma consulted_eq:
  "consulted D s
     = [NameLabel, PassportNo]
       @ (if truthy (capture1 passport_re s) then [] else [DocumentID])
       @ [IssueDate]
       @ (if truthy (parseDate D (or_str (capture1 issue_re s) [])) then [] else [IssuedOn])"
  by (simp add: consulted_def localExtractor_run_def Let_def split: prod.splits)

lemma capture1_empty: "capture1 name_re [] = None" "capture1 passport_re [] = None"
  "capture1 docid_re [] = None" "capture1 issue_re [] = None" "capture1 issued_re [] = None"
  by (simp_all add: capture1_def name_re_def passport_re_def docid_re_def issue_re_def
        issued_re_def ev)

lemma parseDate_empty: "parseDate D [] = None"
  by (simp add: parseDate_def)

section \<open>Claims on the remote call and the orchestration\<close>

text \<open>
  C6: \<open>callGemini\<close> with an absent or an empty credential returns \<open>null\<close> at once, as a
  normal result (\<open>Inr\<close>), and issues no request: the run has no event.
\<close>

theorem callGemini_no_credential:
  "callGemini net parse prompt None = (Inr JNull, [])
   \<and> callGemini net parse prompt (Some []) = (Inr JNull, [])"
  by (simp add: callGemini_def truthy_def)

text \<open>
  C2: with a non-empty credential and a transport on which every attempt fails,
  \<open>callGemini\<close> issues exactly three requests, suspends for 500 ms after the first and
  1000 ms after the second, and rejects with the error of the third attempt.
\<close>

theorem callGemini_failing_transport:
  assumes "key \<noteq> []"
    and "\<And>h. \<exists>e. read_response parse (net h (request_url key) (request_body prompt)) = Inl e"
  shows "\<exists>e. read_response parse
            (net [Fetch (request_url key) (request_body prompt), Delay 500,
                  Fetch (request_url key) (request_body prompt), Delay 1000]
               (request_url key) (request_body prompt)) = Inl e
     \<and> callGemini net parse prompt (Some key)
       = (Inl e, [Fetch (request_url key) (request_body prompt), Delay 500,
                  Fetch (request_url key) (request_body prompt), Delay 1000,
                  Fetch (request_url key) (request_body prompt)])"
  using attempts_all_fail [of parse net "request_url key" "request_body prompt", OF assms(2)]
    assms(1)
  by (simp add: callGemini_def truthy_def)

theorem callGemini_failing_transport_witness:
  "str ''k'' \<noteq> []
   \<and> read_response Some
        (status_of_history [] (request_url (str ''k'')) (request_body (str ''p'')))
       = Inl (RequestFailed 500)
   \<and> callGemini status_of_history Some (str ''p'') (Some (str ''k''))
       = (Inl (RequestFailed 504),
          [Fetch (request_url (str ''k'')) (request_body (str ''p'')), Delay 500,
           Fetch (request_url (str ''k'')) (request_body (str ''p'')), Delay 1000,
           Fetch (request_url (str ''k'')) (request_body (str ''p''))])"
proof -
  have k: "str ''k'' \<noteq> []" by (simp add: str_def)
  have f: "\<And>h. \<exists>e. read_response Some
       (status_of_history h (request_url (str ''k'')) (request_body (str ''p''))) = Inl e"
    by (simp add: read_response_def status_of_history_def)
  show ?thesis
    using callGemini_failing_transport [of "str ''k''" Some status_of_history "str ''p''", OF k f] k
    by (simp add: read_response_def status_of_history_def)
qed

text \<open>
  C3: \<open>handleProcess\<close> with an absent (or empty) credential issues no request, whatever the
  transport, stores an artifact whose \<open>source\<close> is \<open>local-extractor\<close>, and sets the warning
  status that says the API key was not provided.
\<close>

theorem handleProcess_no_credential:
  assumes "\<not> truthy env_key"
  shows "snd (handleProcess D net parse env_key now st) = []
    \<and> (\<exists>a. artifact (fst (handleProcess D net parse env_key now st)) = Some a
          \<and> a (str ''source'') = Some (JStr (str ''local-extractor'')))
    \<and> status (fst (handleProcess D net parse env_key now st))
        = \<lparr>tone = warning, message = str ''Gemini API key not provided; used offline extractor.''\<rparr>
    \<and> handleProcess D net parse env_key now st = handleProcess D net' parse' env_key now st"
proof -
  have "((obj_of (localExtractor D (rawText st)))
           (str ''rawText'' \<mapsto> JStr (rawText st), str ''processedAt'' \<mapsto> JStr now))
          (str ''source'')
        = Some (JStr (str ''local-extractor''))"
    using obj_of_source [of "localExtractor D (rawText st)"]
    by (simp add: source_localExtractor str_def)
  then show ?thesis
    by (simp add: handleProcess_no_key [OF assms])
qed

theorem handleProcess_no_credential_witness:
  "\<not> truthy None
   \<and> snd (handleProcess no_dates (always (Rejected 0)) Some None
            (str ''2026-11-03T00:00:00.000Z'') blank) = []
   \<and> status (fst (handleProcess no_dates (always (Rejected 0)) Some None
            (str ''2026-11-03T00:00:00.000Z'') blank))
        = \<lparr>tone = warning, message = str ''Gemini API key not provided; used offline extractor.''\<rparr>"
  using handleProcess_no_credential [of None no_dates "always (Rejected 0)" Some
      "str ''2026-11-03T00:00:00.000Z''" blank]
  by (simp add: truthy_def)

text \<open>
  C8: two runs of \<open>handleProcess\<close> on the same text without a credential store artifacts
  that agree on every property but \<open>processedAt\<close>, which holds the time of each run.
\<close>

theorem handleProcess_idempotent:
  assumes "\<not> truthy k1" and "\<not> truthy k2" and "rawText st1 = rawText st2"
  shows "\<exists>a1 a2.
      artifact (fst (handleProcess D net1 parse1 k1 now1 st1)) = Some a1
    \<and> artifact (fst (handleProcess D net2 parse2 k2 now2 st2)) = Some a2
    \<and> a1 (str ''processedAt'') = Some (JStr now1)
    \<and> a2 (str ''processedAt'') = Some (JStr now2)
    \<and> a1(str ''processedAt'' := None) = a2(str ''processedAt'' := None)"
  by (simp add: handleProcess_no_key assms)

theorem handleProcess_idempotent_witness:
  "\<not> truthy (Some []) \<and> rawText blank = rawText (blank\<lparr>processing := True\<rparr>)
   \<and> (\<exists>a1 a2.
      artifact (fst (handleProcess no_dates (always (Rejected 0)) Some (Some []) (str ''t1'')
                       blank)) = Some a1
    \<and> artifact (fst (handleProcess no_dates (always (Rejected 1)) Some (Some []) (str ''t2'')
                       (blank\<lparr>processing := True\<rparr>))) = Some a2
    \<and> a1 (str ''processedAt'') = Some (JStr (str ''t1''))
    \<and> a2 (str ''processedAt'') = Some (JStr (str ''t2''))
    \<and> a1(str ''processedAt'' := None) = a2(str ''processedAt'' := None))"
proof -
  have k: "\<not> truthy (Some [])" by (simp add: truthy_def)
  have r: "rawText blank = rawText (blank\<lparr>processing := True\<rparr>)" by simp
  show ?thesis
    using handleProcess_idempotent [OF k k r, of no_dates "always (Rejected 0)" Some "str ''t1''"
        "always (Rejected 1)" Some "str ''t2''"] k r
    by blast
qed

text \<open>
  C9: when the first response is a success whose text parses to a falsy JSON value,
  \<open>callGemini\<close> returns that value after this one request, with no retry, and
  \<open>handleProcess\<close> stores the result of the local extractor under the warning that the API
  key was not provided, although a credential was supplied.
\<close>

theorem falsy_remote_value:
  assumes "key \<noteq> []"
    and "net [] (request_url key) (request_body (buildPrompt (rawText st)))
           = Response True status_code (Some payload)"
    and "payload_text payload = Some reply" and "truthy_json reply"
    and "parse reply = Some v" and "\<not> truthy_json v"
  shows "callGemini net parse (buildPrompt (rawText st)) (Some key)
       = (Inr v, [Fetch (request_url key) (request_body (buildPrompt (rawText st)))])
    \<and> handleProcess D net parse (Some key) now st
       = (st\<lparr>artifact := Some ((obj_of (localExtractor D (rawText st)))
                  (str ''rawText'' \<mapsto> JStr (rawText st), str ''processedAt'' \<mapsto> JStr now)),
             status := \<lparr>tone = warning,
                         message = str ''Gemini API key not provided; used offline extractor.''\<rparr>,
             processing := False\<rparr>,
          [Fetch (request_url key) (request_body (buildPrompt (rawText st)))])"
proof -
  have r: "read_response parse
             (net [] (request_url key) (request_body (buildPrompt (rawText st)))) = Inr v"
    using assms(2-5) by (simp add: read_response_ok)
  have c: "callGemini net parse (buildPrompt (rawText st)) (Some key)
       = (Inr v, [Fetch (request_url key) (request_body (buildPrompt (rawText st)))])"
    using callGemini_first_attempt [where key = key and parse = parse and net = net
        and prompt = "buildPrompt (rawText st)" and v = v] assms(1) r
    by simp
  have k: "or_str (Some key) [] = key"
    using assms(1) by (simp add: or_str_def)
  show ?thesis
    using c assms(6) by (simp add: handleProcess_def extract_structured_def k str_nonempty)
qed

theorem falsy_remote_value_witness:
  "str ''k'' \<noteq> []
   \<and> always (Response True 200 (Some (candidate_payload (str ''null'')))) []
        (request_url (str ''k'')) (request_body (buildPrompt (rawText blank)))
       = Response True 200 (Some (candidate_payload (str ''null'')))
   \<and> payload_text (candidate_payload (str ''null'')) = Some (JStr (str ''null''))
   \<and> truthy_json (JStr (str ''null''))
   \<and> parse_table [(JStr (str ''null''), JNull)] (JStr (str ''null'')) = Some JNull
   \<and> \<not> truthy_json JNull
   \<and> callGemini (always (Response True 200 (Some (candidate_payload (str ''null'')))))
        (parse_table [(JStr (str ''null''), JNull)]) (buildPrompt (rawText blank))
        (Some (str ''k''))
       = (Inr JNull, [Fetch (request_url (str ''k'')) (request_body (buildPrompt (rawText blank)))])
   \<and> status (fst (handleProcess no_dates
          (always (Response True 200 (Some (candidate_payload (str ''null'')))))
          (parse_table [(JStr (str ''null''), JNull)]) (Some (str ''k'')) (str ''t0'') blank))
       = \<lparr>tone = warning, message = str ''Gemini API key not provided; used offline extractor.''\<rparr>"
proof -
  have 1: "str ''k'' \<noteq> []" by (simp add: str_def)
  have 2: "always (Response True 200 (Some (candidate_payload (str ''null'')))) []
        (request_url (str ''k'')) (request_body (buildPrompt (rawText blank)))
       = Response True 200 (Some (candidate_payload (str ''null'')))"
    by (simp add: always_def)
  have 3: "payload_text (candidate_payload (str ''null'')) = Some (JStr (str ''null''))"
    by (rule payload_text_candidate)
  have 4: "truthy_json (JStr (str ''null''))" by (simp add: str_def)
  have 5: "parse_table [(JStr (str ''null''), JNull)] (JStr (str ''null'')) = Some JNull"
    by (simp add: parse_table_def)
  have 6: "\<not> truthy_json JNull" by simp
  show ?thesis
    using falsy_remote_value [where key = "str ''k''" and st = blank and status_code = 200
        and net = "always (Response True 200 (Some (candidate_payload (str ''null''))))"
        and payload = "candidate_payload (str ''null'')" and reply = "JStr (str ''null'')"
        and parse = "parse_table [(JStr (str ''null''), JNull)]" and v = JNull
        and D = no_dates and now = "str ''t0''"] 1 2 3 4 5 6
    by simp
qed

text \<open>
  C1, as the code has it: a result of the local extractor (no credential, a falsy remote
  value or a failed remote call) carries exactly \<open>applicantName\<close>, \<open>documentId\<close>,
  \<open>issueDate\<close> and \<open>source\<close>; a result of the remote path carries the properties of the
  parsed payload, whatever they are, and \<open>source\<close>.
\<close>

theorem extraction_result_fields:
  assumes "extract_structured D net parse key t = ((structured, usedGemini, reason), evs)"
  shows "(\<not> usedGemini \<longrightarrow>
            structured = obj_of (localExtractor D t)
          \<and> dom structured
              = {str ''applicantName'', str ''documentId'', str ''issueDate'', str ''source''}
          \<and> structured (str ''source'') = Some (JStr (str ''local-extractor'')))
       \<and> (usedGemini \<longrightarrow>
            (\<exists>v. fst (callGemini net parse (buildPrompt t) (Some key)) = Inr v \<and> truthy_json v
               \<and> structured
                   = (spread v)(str ''source'' \<mapsto> JStr (str ''gemini-2.5-flash-preview-09-2025''))
               \<and> dom structured = insert (str ''source'') (dom (spread v))))"
proof (cases "callGemini net parse (buildPrompt t) (Some key)")
  case (Pair r es)
  show ?thesis
  proof (cases r)
    case (Inl e)
    with Pair assms have "structured = obj_of (localExtractor D t)" and "\<not> usedGemini"
      by (simp_all add: extract_structured_def)
    then show ?thesis
      by (simp add: dom_obj_of obj_of_source source_localExtractor)
  next
    case (Inr v)
    show ?thesis
    proof (cases "truthy_json v")
      case True
      with Pair Inr assms
      have "structured
          = (spread v)(str ''source'' \<mapsto> JStr (str ''gemini-2.5-flash-preview-09-2025''))"
        and "usedGemini"
        by (simp_all add: extract_structured_def)
      with Pair Inr True show ?thesis by simp
    next
      case False
      with Pair Inr assms have "structured = obj_of (localExtractor D t)" and "\<not> usedGemini"
        by (simp_all add: extract_structured_def)
      then show ?thesis
        by (simp add: dom_obj_of obj_of_source source_localExtractor)
    qed
  qed
qed

theorem extraction_result_fields_witness:
  "extract_structured no_dates foo_net foo_parse (str ''k'') (str ''Name: Jane Doe'')
    = (((spread (JObj [(str ''foo'', JStr (str ''bar''))]))
          (str ''source'' \<mapsto> JStr (str ''gemini-2.5-flash-preview-09-2025'')), True, []),
       [Fetch (request_url (str ''k'')) (request_body (buildPrompt (str ''Name: Jane Doe'')))])
   \<and> dom ((spread (JObj [(str ''foo'', JStr (str ''bar''))]))
          (str ''source'' \<mapsto> JStr (str ''gemini-2.5-flash-preview-09-2025'')))
       = insert (str ''source'') (dom (spread (JObj [(str ''foo'', JStr (str ''bar''))])))
   \<and> extract_structured no_dates foo_net foo_parse [] (str ''Name: Jane Doe'')
    = ((obj_of (localExtractor no_dates (str ''Name: Jane Doe'')), False,
         str ''Gemini API key not provided; used offline extractor.''), [])
   \<and> dom (obj_of (localExtractor no_dates (str ''Name: Jane Doe'')))
       = {str ''applicantName'', str ''documentId'', str ''issueDate'', str ''source''}"
  using extraction_result_fields [OF foo_structured [of no_dates "str ''Name: Jane Doe''"]]
    extraction_result_fields [OF extract_structured_no_key
        [of no_dates foo_net foo_parse "str ''Name: Jane Doe''"]]
    foo_structured [of no_dates "str ''Name: Jane Doe''"]
    extract_structured_no_key [of no_dates foo_net foo_parse "str ''Name: Jane Doe''"]
  by simp

text \<open>
  C1 as stated fails on the remote path: a service that answers \<open>{"foo":"bar"}\<close> gives a
  result with the property \<open>foo\<close> and without \<open>applicantName\<close>.
\<close>

theorem extraction_result_fields_counterexample:
  "fst (fst (extract_structured no_dates foo_net foo_parse (str ''k'') (str ''Name: Jane Doe'')))
       (str ''applicantName'') = None
   \<and> fst (fst (extract_structured no_dates foo_net foo_parse (str ''k'') (str ''Name: Jane Doe'')))
       (str ''foo'') = Some (JStr (str ''bar''))
   \<and> dom (fst (fst (extract_structured no_dates foo_net foo_parse (str ''k'')
                      (str ''Name: Jane Doe''))))
       \<noteq> {str ''applicantName'', str ''documentId'', str ''issueDate'', str ''source''}"
proof -
  have a: "fst (fst (extract_structured no_dates foo_net foo_parse (str ''k'')
                       (str ''Name: Jane Doe''))) (str ''applicantName'') = None"
    by (simp add: foo_structured) (simp add: str_def)
  have b: "fst (fst (extract_structured no_dates foo_net foo_parse (str ''k'')
                       (str ''Name: Jane Doe''))) (str ''foo'') = Some (JStr (str ''bar''))"
    by (simp add: foo_structured) (simp add: str_def)
  from a have "str ''applicantName''
      \<notin> dom (fst (fst (extract_structured no_dates foo_net foo_parse (str ''k'')
                          (str ''Name: Jane Doe''))))"
    by (simp add: domIff)
  then have "dom (fst (fst (extract_structured no_dates foo_net foo_parse (str ''k'')
                              (str ''Name: Jane Doe''))))
       \<noteq> {str ''applicantName'', str ''documentId'', str ''issueDate'', str ''source''}"
    by blast
  with a b show ?thesis by blast
qed

section \<open>Claims on the local extractor\<close>

text \<open>
  C5: on a text in which the numeric pattern matches, \<open>parseDate\<close> returns the three
  captured groups (four, two and two digits) joined by hyphens, whatever month and day
  they spell; \<open>2024-13-40\<close> comes back unchanged.
\<close>

theorem parseDate_numeric:
  "(match_re isoPattern v = Some gs \<longrightarrow>
      (\<exists>y m d. gs = [y, m, d] \<and> length y = 4 \<and> length m = 2 \<and> length d = 2
         \<and> list_all is_digit y \<and> list_all is_digit m \<and> list_all is_digit d
         \<and> parseDate D v = Some (y @ str ''-'' @ m @ str ''-'' @ d)))
   \<and> parseDate D (str ''2024-13-40'') = Some (str ''2024-13-40'')"
proof -
  have "parseDate D (str ''2024-13-40'') = Some (str ''2024-13-40'')"
    by (simp add: parseDate_def isoPattern_def ev)
  moreover have "match_re isoPattern v = Some gs \<longrightarrow>
      (\<exists>y m d. gs = [y, m, d] \<and> length y = 4 \<and> length m = 2 \<and> length d = 2
         \<and> list_all is_digit y \<and> list_all is_digit m \<and> list_all is_digit d
         \<and> parseDate D v = Some (y @ str ''-'' @ m @ str ''-'' @ d))"
    using iso_groups [of v gs] parseDate_iso [of v _ _ _ D] by blast
  ultimately show ?thesis by blast
qed

theorem parseDate_numeric_witness:
  "match_re isoPattern (str ''on 1999/02.31!'') = Some [str ''1999'', str ''02'', str ''31'']
   \<and> parseDate no_dates (str ''on 1999/02.31!'') = Some (str ''1999-02-31'')"
proof -
  have m: "match_re isoPattern (str ''on 1999/02.31!'') = Some [str ''1999'', str ''02'', str ''31'']"
    by (simp add: isoPattern_def ev)
  with parseDate_numeric [of "str ''on 1999/02.31!''" "[str ''1999'', str ''02'', str ''31'']" no_dates]
  show ?thesis by (simp add: str_def)
qed

text \<open>
  C4: \<open>localExtractor\<close> is a total function with no failing branch.  On the empty text
  the three fields are \<open>UNKNOWN\<close>; on every text a field whose patterns give no value
  is \<open>UNKNOWN\<close>, and no field is ever empty.
\<close>

theorem localExtractor_total:
  "localExtractor D (str '''')
     = \<lparr>applicantName = str ''UNKNOWN'', documentId = str ''UNKNOWN'',
        issueDate = str ''UNKNOWN'', source = str ''local-extractor''\<rparr>
   \<and> (\<not> truthy (capture1 name_re s) \<longrightarrow> applicantName (localExtractor D s) = str ''UNKNOWN'')
   \<and> (\<not> truthy (capture1 passport_re s) \<and> \<not> truthy (capture1 docid_re s)
        \<longrightarrow> documentId (localExtractor D s) = str ''UNKNOWN'')
   \<and> (parseDate D (or_str (capture1 issue_re s) []) = None
        \<and> parseDate D (or_str (capture1 issued_re s) []) = None
        \<longrightarrow> issueDate (localExtractor D s) = str ''UNKNOWN'')
   \<and> applicantName (localExtractor D s) \<noteq> []
   \<and> documentId (localExtractor D s) \<noteq> []
   \<and> issueDate (localExtractor D s) \<noteq> []
   \<and> source (localExtractor D s) = str ''local-extractor''"
proof -
  have e: "str '''' = []" by (simp add: str_def)
  have u: "str ''UNKNOWN'' \<noteq> []" by (rule str_nonempty)
  have "localExtractor D (str '''')
     = \<lparr>applicantName = str ''UNKNOWN'', documentId = str ''UNKNOWN'',
        issueDate = str ''UNKNOWN'', source = str ''local-extractor''\<rparr>"
    unfolding e
    by (rule extraction.equality)
       (simp_all add: localExtractor_fields capture1_empty parseDate_empty truthy_def or_str_def)
  moreover have "\<not> truthy (capture1 name_re s) \<longrightarrow> applicantName (localExtractor D s) = str ''UNKNOWN''"
    by (simp add: localExtractor_fields or_str_falsy)
  moreover have "\<not> truthy (capture1 passport_re s) \<and> \<not> truthy (capture1 docid_re s)
        \<longrightarrow> documentId (localExtractor D s) = str ''UNKNOWN''"
    by (simp add: localExtractor_fields or_str_falsy)
  moreover have "parseDate D (or_str (capture1 issue_re s) []) = None
        \<and> parseDate D (or_str (capture1 issued_re s) []) = None
        \<longrightarrow> issueDate (localExtractor D s) = str ''UNKNOWN''"
    by (simp add: localExtractor_fields truthy_def or_str_def)
  moreover have "applicantName (localExtractor D s) \<noteq> []"
    "documentId (localExtractor D s) \<noteq> []" "issueDate (localExtractor D s) \<noteq> []"
    using u by (simp_all only: localExtractor_fields or_str_nonempty not_False_eq_True)
  ultimately show ?thesis
    by (simp only: localExtractor_fields simp_thms)
qed

theorem localExtractor_total_witness:
  "\<not> truthy (capture1 name_re (str ''Nationality: USA''))
   \<and> \<not> truthy (capture1 passport_re (str ''Nationality: USA''))
   \<and> \<not> truthy (capture1 docid_re (str ''Nationality: USA''))
   \<and> parseDate no_dates (or_str (capture1 issue_re (str ''Nationality: USA'')) []) = None
   \<and> parseDate no_dates (or_str (capture1 issued_re (str ''Nationality: USA'')) []) = None
   \<and> applicantName (localExtractor no_dates (str ''Nationality: USA'')) = str ''UNKNOWN''
   \<and> documentId (localExtractor no_dates (str ''Nationality: USA'')) = str ''UNKNOWN''
   \<and> issueDate (localExtractor no_dates (str ''Nationality: USA'')) = str ''UNKNOWN''"
proof -
  have 1: "capture1 name_re (str ''Nationality: USA'') = None"
    by (simp add: capture1_def name_re_def ev)
  have 2: "capture1 passport_re (str ''Nationality: USA'') = None"
    by (simp add: capture1_def passport_re_def ev)
  have 3: "capture1 docid_re (str ''Nationality: USA'') = None"
    by (simp add: capture1_def docid_re_def ev)
  have 4: "capture1 issue_re (str ''Nationality: USA'') = None"
    by (simp add: capture1_def issue_re_def ev)
  have 5: "capture1 issued_re (str ''Nationality: USA'') = None"
    by (simp add: capture1_def issued_re_def ev)
  show ?thesis
    using localExtractor_total [of no_dates "str ''Nationality: USA''"]
    by (simp add: 1 2 3 4 5 truthy_def or_str_def parseDate_empty)
qed

text \<open>
  C7: the patterns are evaluated in the order name, passport number, document id, issue
  date, issued on, and the first success is the value of the field.  When the passport
  pattern matches, its capture is the \<open>documentId\<close> and the document id pattern is not
  evaluated; when it does not, the document id pattern is evaluated and its capture is
  the \<open>documentId\<close>, \<open>UNKNOWN\<close> when it has none.  When the issue-date capture gives a
  date, that date is the \<open>issueDate\<close> and the issued-on pattern is not evaluated; when it
  gives none, the issued-on pattern is evaluated and the date of its capture is the
  \<open>issueDate\<close>, \<open>UNKNOWN\<close> when it gives none.  A name capture that is not blank is the
  \<open>applicantName\<close>.
\<close>

theorem first_alternative_wins:
  "consulted D s
     = [NameLabel, PassportNo]
       @ (if match_re passport_re s = None then [DocumentID] else [])
       @ [IssueDate]
       @ (if parseDate D (or_str (capture1 issue_re s) []) = None then [IssuedOn] else [])
   \<and> (match_re passport_re s \<noteq> None \<longrightarrow>
        DocumentID \<notin> set (consulted D s)
        \<and> (\<exists>g. match_re passport_re s = Some [g] \<and> documentId (localExtractor D s) = g))
   \<and> (IssuedOn \<in> set (consulted D s) \<longrightarrow> parseDate D (or_str (capture1 issue_re s) []) = None)
   \<and> (parseDate D (or_str (capture1 issue_re s) []) = Some d \<longrightarrow>
        IssuedOn \<notin> set (consulted D s) \<and> issueDate (localExtractor D s) = d)
   \<and> (match_re passport_re s = None \<longrightarrow>
        DocumentID \<in> set (consulted D s)
        \<and> documentId (localExtractor D s) = or_str (capture1 docid_re s) (str ''UNKNOWN''))
   \<and> (match_re passport_re s = None \<and> match_re docid_re s = Some [g2] \<longrightarrow>
        documentId (localExtractor D s) = g2)
   \<and> (match_re passport_re s = None \<and> match_re docid_re s = None \<longrightarrow>
        documentId (localExtractor D s) = str ''UNKNOWN'')
   \<and> (parseDate D (or_str (capture1 issue_re s) []) = None \<longrightarrow>
        IssuedOn \<in> set (consulted D s)
        \<and> issueDate (localExtractor D s)
            = or_str (parseDate D (or_str (capture1 issued_re s) [])) (str ''UNKNOWN''))
   \<and> (parseDate D (or_str (capture1 issue_re s) []) = None
        \<and> parseDate D (or_str (capture1 issued_re s) []) = Some d2 \<longrightarrow>
        issueDate (localExtractor D s) = d2)
   \<and> (parseDate D (or_str (capture1 issue_re s) []) = None
        \<and> parseDate D (or_str (capture1 issued_re s) []) = None \<longrightarrow>
        issueDate (localExtractor D s) = str ''UNKNOWN'')
   \<and> (match_re name_re s = Some [g0] \<and> trim g0 \<noteq> [] \<longrightarrow>
        applicantName (localExtractor D s) = trim g0)"
proof -
  have c: "consulted D s
     = [NameLabel, PassportNo]
       @ (if match_re passport_re s = None then [DocumentID] else [])
       @ [IssueDate]
       @ (if parseDate D (or_str (capture1 issue_re s) []) = None then [IssuedOn] else [])"
    by (simp add: consulted_eq passport_truthy truthy_parseDate)
  have p: "match_re passport_re s \<noteq> None \<longrightarrow>
        (\<exists>g. match_re passport_re s = Some [g] \<and> documentId (localExtractor D s) = g)"
  proof
    assume "match_re passport_re s \<noteq> None"
    then obtain gs where gs: "match_re passport_re s = Some gs" by auto
    from passport_groups [OF gs] obtain g where g: "gs = [g]" "g \<noteq> []" "trim g = g" by auto
    have "capture1 passport_re s = Some g"
      using gs g by (simp add: capture1_def)
    then have "documentId (localExtractor D s) = g"
      using g(2) by (simp add: localExtractor_fields truthy_def or_str_def)
    with gs g(1) show "\<exists>g. match_re passport_re s = Some [g] \<and> documentId (localExtractor D s) = g"
      by simp
  qed
  have d: "parseDate D (or_str (capture1 issue_re s) []) = Some d \<longrightarrow>
        issueDate (localExtractor D s) = d"
    using parseDate_nonempty [of D "or_str (capture1 issue_re s) []"]
    by (auto simp: localExtractor_fields truthy_def or_str_def)
  have q: "match_re passport_re s = None \<longrightarrow>
        documentId (localExtractor D s) = or_str (capture1 docid_re s) (str ''UNKNOWN'')"
    by (simp add: localExtractor_fields passport_truthy)
  have q2: "match_re passport_re s = None \<and> match_re docid_re s = Some [g2] \<longrightarrow>
        documentId (localExtractor D s) = g2"
  proof
    assume a: "match_re passport_re s = None \<and> match_re docid_re s = Some [g2]"
    then have m: "match_re docid_re s = Some [g2]" by simp
    from docid_groups [OF m] have g: "g2 \<noteq> []" "trim g2 = g2" by auto
    have "capture1 docid_re s = Some g2"
      using m g by (simp add: capture1_def)
    with a g(1) show "documentId (localExtractor D s) = g2"
      by (simp add: localExtractor_fields passport_truthy or_str_def)
  qed
  have q3: "match_re passport_re s = None \<and> match_re docid_re s = None \<longrightarrow>
        documentId (localExtractor D s) = str ''UNKNOWN''"
    by (simp add: localExtractor_fields passport_truthy capture1_def or_str_def)
  have e: "parseDate D (or_str (capture1 issue_re s) []) = None \<longrightarrow>
        issueDate (localExtractor D s)
            = or_str (parseDate D (or_str (capture1 issued_re s) [])) (str ''UNKNOWN'')"
    by (simp add: localExtractor_fields truthy_def)
  have e2: "parseDate D (or_str (capture1 issue_re s) []) = None
        \<and> parseDate D (or_str (capture1 issued_re s) []) = Some d2 \<longrightarrow>
        issueDate (localExtractor D s) = d2"
    using parseDate_nonempty [of D "or_str (capture1 issued_re s) []"]
    by (auto simp: localExtractor_fields truthy_def or_str_def)
  have e3: "parseDate D (or_str (capture1 issue_re s) []) = None
        \<and> parseDate D (or_str (capture1 issued_re s) []) = None \<longrightarrow>
        issueDate (localExtractor D s) = str ''UNKNOWN''"
    by (simp add: localExtractor_fields truthy_def or_str_def)
  have n: "match_re name_re s = Some [g0] \<and> trim g0 \<noteq> [] \<longrightarrow>
        applicantName (localExtractor D s) = trim g0"
    by (simp add: localExtractor_fields capture1_def or_str_def)
  from c p d q q2 q3 e e2 e3 n show ?thesis by auto
qed

theorem first_alternative_wins_witness:
  "match_re passport_re two_ids = Some [str ''X1'']
   \<and> match_re docid_re two_ids = Some [str ''Y2'']
   \<and> documentId (localExtractor no_dates two_ids) = str ''X1''
   \<and> parseDate no_dates (or_str (capture1 issue_re two_ids) []) = Some (str ''2021-05-17'')
   \<and> issueDate (localExtractor no_dates two_ids) = str ''2021-05-17''
   \<and> consulted no_dates two_ids = [NameLabel, PassportNo, IssueDate]
   \<and> parseDate no_dates (or_str (capture1 issue_re blank_issue_date) []) = None
   \<and> consulted no_dates blank_issue_date
       = [NameLabel, PassportNo, DocumentID, IssueDate, IssuedOn]
   \<and> match_re passport_re blank_issue_date = None
   \<and> match_re docid_re blank_issue_date = None
   \<and> documentId (localExtractor no_dates blank_issue_date) = str ''UNKNOWN''
   \<and> match_re name_re second_choice = Some [str ''Al'']
   \<and> trim (str ''Al'') \<noteq> []
   \<and> applicantName (localExtractor no_dates second_choice) = str ''Al''
   \<and> match_re passport_re second_choice = None
   \<and> match_re docid_re second_choice = Some [str ''Y2'']
   \<and> documentId (localExtractor no_dates second_choice) = str ''Y2''
   \<and> parseDate no_dates (or_str (capture1 issue_re second_choice) []) = None
   \<and> parseDate no_dates (or_str (capture1 issued_re second_choice) [])
       = Some (str ''2020-01-02'')
   \<and> issueDate (localExtractor no_dates second_choice) = str ''2020-01-02''
   \<and> consulted no_dates second_choice
       = [NameLabel, PassportNo, DocumentID, IssueDate, IssuedOn]
   \<and> parseDate no_dates (or_str (capture1 issue_re (str ''Nationality: USA'')) []) = None
   \<and> parseDate no_dates (or_str (capture1 issued_re (str ''Nationality: USA'')) []) = None
   \<and> issueDate (localExtractor no_dates (str ''Nationality: USA'')) = str ''UNKNOWN''"
proof -
  have 1: "match_re passport_re two_ids = Some [str ''X1'']"
    by (simp add: two_ids_def passport_re_def ev)
  have 2: "match_re docid_re two_ids = Some [str ''Y2'']"
    by (simp add: two_ids_def docid_re_def ev)
  have 3: "capture1 issue_re two_ids = Some (str ''2021-05-17 Issued on 2020-01-01'')"
    by (simp add: capture1_def two_ids_def issue_re_def ev)
  have 4: "parseDate no_dates (str ''2021-05-17 Issued on 2020-01-01'') = Some (str ''2021-05-17'')"
    by (simp add: parseDate_def isoPattern_def ev)
  have 5: "parseDate no_dates (or_str (capture1 issue_re two_ids) []) = Some (str ''2021-05-17'')"
    by (simp add: 3 4 or_str_def str_nonempty)
  have 6: "match_re passport_re blank_issue_date = None"
    by (simp add: blank_issue_date_def passport_re_def ev)
  have 7: "capture1 issue_re blank_issue_date = Some []"
    by (simp add: capture1_def blank_issue_date_def issue_re_def ev)
  have 8: "parseDate no_dates (or_str (capture1 issue_re blank_issue_date) []) = None"
    by (simp add: 7 or_str_def parseDate_empty)
  have 9: "match_re docid_re blank_issue_date = None"
    by (simp add: blank_issue_date_def docid_re_def ev)
  have 10: "match_re name_re second_choice = Some [str ''Al'']"
    by (simp add: second_choice_def name_re_def ev)
  have 11: "trim (str ''Al'') = str ''Al''"
    by (simp add: ev)
  have 12: "match_re passport_re second_choice = None"
    by (simp add: second_choice_def passport_re_def ev)
  have 13: "match_re docid_re second_choice = Some [str ''Y2'']"
    by (simp add: second_choice_def docid_re_def ev)
  have 14: "capture1 issue_re second_choice = None"
    by (simp add: capture1_def second_choice_def issue_re_def ev)
  have 15: "capture1 issued_re second_choice = Some (str ''2020.01.02'')"
    by (simp add: capture1_def second_choice_def issued_re_def ev)
  have 16: "parseDate no_dates (str ''2020.01.02'') = Some (str ''2020-01-02'')"
    by (simp add: parseDate_def isoPattern_def ev)
  have 17: "parseDate no_dates (or_str (capture1 issue_re second_choice) []) = None"
    by (simp add: 14 or_str_def parseDate_empty)
  have 18: "parseDate no_dates (or_str (capture1 issued_re second_choice) [])
       = Some (str ''2020-01-02'')"
    by (simp add: 15 16 or_str_def str_nonempty)
  have 19: "capture1 issue_re (str ''Nationality: USA'') = None"
    by (simp add: capture1_def issue_re_def ev)
  have 20: "capture1 issued_re (str ''Nationality: USA'') = None"
    by (simp add: capture1_def issued_re_def ev)
  have 21: "parseDate no_dates (or_str (capture1 issue_re (str ''Nationality: USA'')) []) = None"
    "parseDate no_dates (or_str (capture1 issued_re (str ''Nationality: USA'')) []) = None"
    by (simp_all add: 19 20 or_str_def parseDate_empty)
  have ne: "trim (str ''Al'') \<noteq> []"
    by (simp add: 11 str_nonempty)
  note A = first_alternative_wins [of no_dates two_ids "str ''2021-05-17''" "str ''Y2''"
      "str ''2020-01-02''" "str ''Al''"]
  note B = first_alternative_wins [of no_dates blank_issue_date "str ''2021-05-17''" "str ''Y2''"
      "str ''2020-01-02''" "str ''Al''"]
  note C = first_alternative_wins [of no_dates second_choice "str ''2021-05-17''" "str ''Y2''"
      "str ''2020-01-02''" "str ''Al''"]
  note E = first_alternative_wins [of no_dates "str ''Nationality: USA''" "str ''2021-05-17''"
      "str ''Y2''" "str ''2020-01-02''" "str ''Al''"]
  have a1: "consulted no_dates two_ids = [NameLabel, PassportNo, IssueDate]"
    using A [THEN conjunct1] by (simp add: 1 5)
  have a2: "documentId (localExtractor no_dates two_ids) = str ''X1''"
    using A [THEN conjunct2, THEN conjunct1] by (simp add: 1)
  have a4: "issueDate (localExtractor no_dates two_ids) = str ''2021-05-17''"
    using A [THEN conjunct2, THEN conjunct2, THEN conjunct2, THEN conjunct1] by (simp add: 5)
  have b1: "consulted no_dates blank_issue_date
       = [NameLabel, PassportNo, DocumentID, IssueDate, IssuedOn]"
    using B [THEN conjunct1] by (simp add: 6 8)
  have b7: "documentId (localExtractor no_dates blank_issue_date) = str ''UNKNOWN''"
    using B [THEN conjunct2, THEN conjunct2, THEN conjunct2, THEN conjunct2, THEN conjunct2,
        THEN conjunct2, THEN conjunct1]
    by (simp add: 6 9)
  have c1: "consulted no_dates second_choice
       = [NameLabel, PassportNo, DocumentID, IssueDate, IssuedOn]"
    using C [THEN conjunct1] by (simp add: 12 17)
  have c6: "documentId (localExtractor no_dates second_choice) = str ''Y2''"
    using C [THEN conjunct2, THEN conjunct2, THEN conjunct2, THEN conjunct2, THEN conjunct2,
        THEN conjunct1]
    by (simp add: 12 13)
  have c9: "issueDate (localExtractor no_dates second_choice) = str ''2020-01-02''"
    using C [THEN conjunct2, THEN conjunct2, THEN conjunct2, THEN conjunct2, THEN conjunct2,
        THEN conjunct2, THEN conjunct2, THEN conjunct2, THEN conjunct1]
    by (simp add: 17 18)
  have c11: "applicantName (localExtractor no_dates second_choice) = str ''Al''"
    using C [THEN conjunct2, THEN conjunct2, THEN conjunct2, THEN conjunct2, THEN conjunct2,
        THEN conjunct2, THEN conjunct2, THEN conjunct2, THEN conjunct2, THEN conjunct2] ne
    by (simp add: 10 11)
  have e10: "issueDate (localExtractor no_dates (str ''Nationality: USA'')) = str ''UNKNOWN''"
    using E [THEN conjunct2, THEN conjunct2, THEN conjunct2, THEN conjunct2, THEN conjunct2,
        THEN conjunct2, THEN conjunct2, THEN conjunct2, THEN conjunct2, THEN conjunct1]
    by (simp add: 21)
  show ?thesis
    by (simp only: 1 2 5 6 8 9 10 12 13 17 18 21 ne a1 a2 a4 b1 b7 c1 c6 c9 c11 e10 simp_thms)
qed

text \<open>
  C10: a pattern that matches with a capture that trims to the empty string counts as
  no match.  The name is then \<open>UNKNOWN\<close>; after such an issue-date match the issued-on
  pattern is evaluated and decides the \<open>issueDate\<close>, which is \<open>UNKNOWN\<close> when that capture
  is blank too; a falsy passport capture leaves the \<open>documentId\<close> to the document id
  pattern.  The captures of the two \<open>documentId\<close> patterns never trim to the empty string.
\<close>

theorem empty_capture_as_no_match:
  "(match_re name_re s = Some [g1] \<and> trim g1 = [] \<longrightarrow>
      applicantName (localExtractor D s) = str ''UNKNOWN'')
   \<and> (match_re issue_re s = Some [g2] \<and> trim g2 = [] \<longrightarrow>
      IssuedOn \<in> set (consulted D s)
      \<and> issueDate (localExtractor D s)
          = or_str (parseDate D (or_str (capture1 issued_re s) [])) (str ''UNKNOWN''))
   \<and> (parseDate D (or_str (capture1 issue_re s) []) = None
        \<and> match_re issued_re s = Some [g3] \<and> trim g3 = [] \<longrightarrow>
      issueDate (localExtractor D s) = str ''UNKNOWN'')
   \<and> (\<not> truthy (capture1 passport_re s) \<longrightarrow>
      DocumentID \<in> set (consulted D s)
      \<and> documentId (localExtractor D s) = or_str (capture1 docid_re s) (str ''UNKNOWN''))
   \<and> capture1 passport_re s \<noteq> Some [] \<and> capture1 docid_re s \<noteq> Some []"
proof -
  have n: "match_re name_re s = Some [g1] \<and> trim g1 = [] \<longrightarrow>
      applicantName (localExtractor D s) = str ''UNKNOWN''"
    by (simp add: localExtractor_fields capture1_def or_str_def)
  have i: "match_re issue_re s = Some [g2] \<and> trim g2 = [] \<longrightarrow>
      IssuedOn \<in> set (consulted D s)
      \<and> issueDate (localExtractor D s)
          = or_str (parseDate D (or_str (capture1 issued_re s) [])) (str ''UNKNOWN'')"
    by (simp add: localExtractor_fields consulted_eq capture1_def or_str_def parseDate_empty
          truthy_def)
  have j: "parseDate D (or_str (capture1 issue_re s) []) = None
        \<and> match_re issued_re s = Some [g3] \<and> trim g3 = [] \<longrightarrow>
      issueDate (localExtractor D s) = str ''UNKNOWN''"
    by (simp add: localExtractor_fields capture1_def or_str_def parseDate_empty truthy_def)
  have p: "\<not> truthy (capture1 passport_re s) \<longrightarrow>
      DocumentID \<in> set (consulted D s)
      \<and> documentId (localExtractor D s) = or_str (capture1 docid_re s) (str ''UNKNOWN'')"
    by (simp add: localExtractor_fields consulted_eq)
  have q: "capture1 passport_re s \<noteq> Some []" "capture1 docid_re s \<noteq> Some []"
    by (auto simp: capture1_def split: option.splits list.splits
          dest: passport_groups docid_groups)
  from n i j p q show ?thesis by blast
qed

theorem empty_capture_as_no_match_witness:
  "match_re name_re blank_captures = Some [str '' ''] \<and> trim (str '' '') = []
   \<and> match_re issue_re blank_captures = Some [str '' '']
   \<and> match_re issued_re blank_captures = Some [str '' '']
   \<and> parseDate no_dates (or_str (capture1 issue_re blank_captures) []) = None
   \<and> \<not> truthy (capture1 passport_re blank_captures)
   \<and> applicantName (localExtractor no_dates blank_captures) = str ''UNKNOWN''
   \<and> documentId (localExtractor no_dates blank_captures) = str ''UNKNOWN''
   \<and> issueDate (localExtractor no_dates blank_captures) = str ''UNKNOWN''
   \<and> DocumentID \<in> set (consulted no_dates blank_captures)
   \<and> IssuedOn \<in> set (consulted no_dates blank_captures)
   \<and> match_re issue_re blank_issue_date = Some [str '' ''] 
   \<and> IssuedOn \<in> set (consulted no_dates blank_issue_date)
   \<and> issueDate (localExtractor no_dates blank_issue_date) = str ''2020-01-02''"
proof -
  have t: "trim (str '' '') = []"
    by (simp add: ev)
  have 1: "match_re name_re blank_captures = Some [str '' '']"
    by (simp add: blank_captures_def name_re_def ev)
  have 2: "match_re issue_re blank_captures = Some [str '' '']"
    by (simp add: blank_captures_def issue_re_def ev)
  have 3: "match_re issued_re blank_captures = Some [str '' '']"
    by (simp add: blank_captures_def issued_re_def ev)
  have 4: "match_re passport_re blank_captures = None"
    by (simp add: blank_captures_def passport_re_def ev)
  have 5: "match_re docid_re blank_captures = None"
    by (simp add: blank_captures_def docid_re_def ev)
  have 6: "match_re issue_re blank_issue_date = Some [str '' '']"
    by (simp add: blank_issue_date_def issue_re_def ev)
  have 7: "capture1 issued_re blank_issue_date = Some (str ''2020.01.02'')"
    by (simp add: capture1_def blank_issue_date_def issued_re_def ev)
  have 8: "parseDate no_dates (str ''2020.01.02'') = Some (str ''2020-01-02'')"
    by (simp add: parseDate_def isoPattern_def ev)
  have c: "capture1 issue_re blank_captures = Some []" "capture1 passport_re blank_captures = None"
    "capture1 docid_re blank_captures = None" "capture1 issued_re blank_captures = Some []"
    by (simp_all add: capture1_def 2 3 4 5 t)
  show ?thesis
    using empty_capture_as_no_match [of blank_captures "str '' ''" no_dates "str '' ''" "str '' ''"]
      empty_capture_as_no_match [of blank_issue_date "str '' ''" no_dates "str '' ''" "str '' ''"]
    by (simp add: 1 2 3 6 7 8 c t truthy_def or_str_def parseDate_empty str_nonempty)
qed

end
